theory Spec2Isabelle
  imports Complex_Main "HOL-Library.Multiset"
begin

section \<open>Rural Health AI Triage: the scoring engine and the visit store of app.py\<close>

text \<open>
  The model follows \<^verbatim>\<open>app.py\<close>. Python's unbounded \<^verbatim>\<open>int\<close> is \<^typ>\<open>int\<close>. A vital
  sign is a Python number (an \<^verbatim>\<open>int\<close>, or a \<^verbatim>\<open>float\<close> for the temperature); the
  code only compares vitals with integer thresholds, and Python compares an \<^verbatim>\<open>int\<close>
  with a \<^verbatim>\<open>float\<close> by their exact values, so a vital is modelled by its exact value in
  \<^typ>\<open>rat\<close>. The literal \<^verbatim>\<open>98.6\<close> stands for the double nearest to 98.6, which lies
  on the same side of every threshold as 98.6 itself. A Python \<^verbatim>\<open>str\<close> is modelled by
  its UTF-8 bytes as a \<^typ>\<open>string\<close>; the code only compares strings for equality, and
  UTF-8 is injective.
\<close>

subsection \<open>Scoring engine\<close>

type_synonym vitals = "string \<rightharpoonup> rat"

text \<open>\<^verbatim>\<open>vitals.get(key, default)\<close>: the value stored under the key, or the default.\<close>

definition get :: "vitals \<Rightarrow> string \<Rightarrow> rat \<Rightarrow> rat" where
  "get vitals key dflt = (case vitals key of None \<Rightarrow> dflt | Some v \<Rightarrow> v)"

definition critical_symptoms :: "string list" where
  "critical_symptoms = [''chest_pain'', ''breathlessness'', ''confusion'', ''severe_bleeding'']"

definition moderate_symptoms :: "string list" where
  "moderate_symptoms = [''high_fever'', ''persistent_cough'', ''severe_pain'']"

definition high_risk_conditions :: "string list" where
  "high_risk_conditions = [''heart_disease'', ''copd'']"

definition moderate_risk_conditions :: "string list" where
  "moderate_risk_conditions = [''diabetes'', ''hypertension'', ''pregnancy'']"

text \<open>Lines 34 to 37: the age bands, applied to the running \<^verbatim>\<open>score\<close>.\<close>

definition age_risk :: "int \<Rightarrow> int \<Rightarrow> int" where
  "age_risk age score =
     (if age < 5 then score + 15
      else if age > 60 then score + 20
      else score)"

text \<open>Lines 43 to 49: \<^verbatim>\<open>for symptom in symptoms\<close>, with the running \<^verbatim>\<open>score\<close>.\<close>

fun symptom_risk :: "string list \<Rightarrow> int \<Rightarrow> int" where
  "symptom_risk [] score = score"
| "symptom_risk (symptom # symptoms) score =
     symptom_risk symptoms
       (if symptom \<in> set critical_symptoms then score + 25
        else if symptom \<in> set moderate_symptoms then score + 10
        else score + 5)"

text \<open>Lines 52 to 67: the five vitals, each read with its default, and the five checks.\<close>

definition vitals_risk :: "vitals \<Rightarrow> int \<Rightarrow> int" where
  "vitals_risk vitals score =
     (let bp_sys = get vitals ''bp_systolic'' 120;
          bp_dia = get vitals ''bp_diastolic'' 80;
          heart_rate = get vitals ''heart_rate'' 75;
          temp = get vitals ''temperature'' 98.6;
          spo2 = get vitals ''spo2'' 98;
          score = (if bp_sys > 140 \<or> bp_sys < 90 then score + 15 else score);
          score = (if bp_dia > 90 \<or> bp_dia < 60 then score + 10 else score);
          score = (if heart_rate > 100 \<or> heart_rate < 50 then score + 15 else score);
          score = (if temp > 101 then score + 10 else score);
          score = (if spo2 < 94 then score + 20 else score)
      in score)"

text \<open>Lines 73 to 77: \<^verbatim>\<open>for condition in conditions\<close>; an unlisted tag adds nothing.\<close>

fun condition_risk :: "string list \<Rightarrow> int \<Rightarrow> int" where
  "condition_risk [] score = score"
| "condition_risk (condition # conditions) score =
     condition_risk conditions
       (if condition \<in> set high_risk_conditions then score + 15
        else if condition \<in> set moderate_risk_conditions then score + 10
        else score)"

text \<open>The value of \<^verbatim>\<open>score\<close> when line 79 is reached, before the cap.\<close>

definition raw_score :: "int \<Rightarrow> string list \<Rightarrow> vitals \<Rightarrow> string list \<Rightarrow> int" where
  "raw_score age symptoms vitals conditions =
     condition_risk conditions (vitals_risk vitals (symptom_risk symptoms (age_risk age 0)))"

definition calculate_risk_score :: "int \<Rightarrow> string list \<Rightarrow> vitals \<Rightarrow> string list \<Rightarrow> int" where
  "calculate_risk_score age symptoms vitals conditions =
     min (raw_score age symptoms vitals conditions) 100"

definition get_risk_level :: "int \<Rightarrow> string" where
  "get_risk_level score =
     (if score \<ge> 60 then ''HIGH''
      else if score \<ge> 30 then ''MEDIUM''
      else ''LOW'')"

text \<open>
  The three advisory strings start with a symbol outside ASCII: U+26A0 U+FE0F (warning
  sign), U+1F4CB (clipboard) and U+2705 (check mark), written here as their UTF-8 bytes.
\<close>

definition urgent_referral :: string where
  "urgent_referral =
     [CHR 0xE2, CHR 0x9A, CHR 0xA0, CHR 0xEF, CHR 0xB8, CHR 0x8F]
       @ '' URGENT REFERRAL TO PHC/HOSPITAL''"

definition follow_up :: string where
  "follow_up =
     [CHR 0xF0, CHR 0x9F, CHR 0x93, CHR 0x8B] @ '' Schedule Follow-up within 48 hours''"

definition home_care :: string where
  "home_care = [CHR 0xE2, CHR 0x9C, CHR 0x85] @ '' Home Care with monitoring''"

definition get_recommendation :: "string \<Rightarrow> int \<Rightarrow> string" where
  "get_recommendation risk_level score =
     (if risk_level = ''HIGH'' then urgent_referral
      else if risk_level = ''MEDIUM'' then follow_up
      else home_care)"

text \<open>
  The order of the three tiers, used to state that the level does not decrease when the
  score grows.
\<close>

definition tier :: "string \<Rightarrow> nat" where
  "tier level = (if level = ''HIGH'' then 2 else if level = ''MEDIUM'' then 1 else 0)"

text \<open>
  The baseline vitals, as a full dictionary: the defaults of lines 52 to 56, which are
  also the initial values of the five input widgets.
\<close>

definition baseline_vitals :: vitals where
  "baseline_vitals =
     [''bp_systolic'' \<mapsto> 120, ''bp_diastolic'' \<mapsto> 80, ''heart_rate'' \<mapsto> 75,
      ''temperature'' \<mapsto> 98.6, ''spo2'' \<mapsto> 98]"

subsection \<open>Visit store\<close>

text \<open>
  A visit record is the dictionary built on lines 203 to 218; the field \<open>visit_id\<close> is
  its key \<^verbatim>\<open>'id'\<close>.
\<close>

record visit =
  visit_id :: int
  patient_name :: string
  age :: int
  gender :: string
  village :: string
  health_worker :: string
  visit_date :: string
  symptoms :: "string list"
  conditions :: "string list"
  vitals :: vitals
  risk_score :: int
  risk_level :: string
  recommendation :: string
  timestamp :: string

text \<open>
  The backing document \<^verbatim>\<open>patient_visits.json\<close>: the file does not exist, or it exists
  and \<^verbatim>\<open>json.load\<close> rejects its content, or it exists and holds the list of records
  that \<^verbatim>\<open>json.dump\<close> wrote.
\<close>

datatype document = Missing | Corrupt | Stored "visit list"

datatype error = JSONDecodeError

text \<open>
  Lines 17 to 22. There is no handler around \<^verbatim>\<open>json.load\<close>, so its exception leaves
  \<^verbatim>\<open>load_data\<close>.
\<close>

definition load_data :: "document \<Rightarrow> error + visit list" where
  "load_data doc =
     (case doc of
        Missing \<Rightarrow> Inr []
      | Corrupt \<Rightarrow> Inl JSONDecodeError
      | Stored data \<Rightarrow> Inr data)"

text \<open>Lines 24 to 27: the file is opened for writing and the whole list replaces it.\<close>

definition save_data :: "visit list \<Rightarrow> document \<Rightarrow> document" where
  "save_data data doc = Stored data"

text \<open>
  The values of the input widgets when the button is pressed, after the check of the
  required fields. \<open>input_visit_date\<close> is the chosen date as
  \<^verbatim>\<open>strftime('%Y-%m-%d')\<close> prints it, and \<open>input_now\<close> is what
  \<^verbatim>\<open>datetime.now().isoformat()\<close> returns on line 217.
\<close>

record form =
  input_patient_name :: string
  input_age :: int
  input_gender :: string
  input_village :: string
  input_worker_name :: string
  input_visit_date :: string
  input_symptoms :: "string list"
  input_other_symptoms :: string
  input_conditions :: "string list"
  input_bp_sys :: int
  input_bp_dia :: int
  input_heart_rate :: int
  input_temperature :: rat
  input_spo2 :: int
  input_now :: string

text \<open>
  Lines 171 to 182 and 203 to 218: the record built from the form, where \<open>persisted\<close>
  is \<^verbatim>\<open>len(load_data())\<close> as read on line 204.
\<close>

definition visit_data :: "nat \<Rightarrow> form \<Rightarrow> visit" where
  "visit_data persisted f =
     (let vitals = [''bp_systolic'' \<mapsto> of_int (input_bp_sys f),
                    ''bp_diastolic'' \<mapsto> of_int (input_bp_dia f),
                    ''heart_rate'' \<mapsto> of_int (input_heart_rate f),
                    ''temperature'' \<mapsto> input_temperature f,
                    ''spo2'' \<mapsto> of_int (input_spo2 f)];
          risk_score = calculate_risk_score (input_age f) (input_symptoms f) vitals
                         (input_conditions f);
          risk_level = get_risk_level risk_score;
          recommendation = get_recommendation risk_level risk_score
      in \<lparr> visit_id = int persisted + 1,
           patient_name = input_patient_name f,
           age = input_age f,
           gender = input_gender f,
           village = input_village f,
           health_worker = input_worker_name f,
           visit_date = input_visit_date f,
           symptoms = input_symptoms f
             @ (if input_other_symptoms f \<noteq> [] then [input_other_symptoms f] else []),
           conditions = input_conditions f,
           vitals = vitals,
           risk_score = risk_score,
           risk_level = risk_level,
           recommendation = recommendation,
           timestamp = input_now f \<rparr>)"

text \<open>
  Lines 203 to 222: the document is read once for the id and once more for the list
  that is extended and written back. The result is the record shown to the user, or the
  exception, together with the document afterwards.
\<close>

definition record_visit :: "form \<Rightarrow> document \<Rightarrow> (error + visit) \<times> document" where
  "record_visit f doc =
     (case load_data doc of
        Inl e \<Rightarrow> (Inl e, doc)
      | Inr persisted \<Rightarrow>
          (let v = visit_data (length persisted) f
           in case load_data doc of
                Inl e \<Rightarrow> (Inl e, doc)
              | Inr data \<Rightarrow> (Inr v, save_data (data @ [v]) doc)))"

text \<open>One visit recorded after the other, each on the document the one before left.\<close>

fun record_visits :: "form list \<Rightarrow> document \<Rightarrow> document" where
  "record_visits [] doc = doc"
| "record_visits (f # fs) doc = record_visits fs (snd (record_visit f doc))"

subsection \<open>Dashboard\<close>

text \<open>Lines 273 to 276: the list comprehension over \<^verbatim>\<open>data\<close>.\<close>

fun filtered_data :: "visit list \<Rightarrow> string list \<Rightarrow> string list \<Rightarrow> visit list" where
  "filtered_data [] filter_risk filter_village = []"
| "filtered_data (d # data) filter_risk filter_village =
     (if risk_level d \<in> set filter_risk \<and> village d \<in> set filter_village
      then d # filtered_data data filter_risk filter_village
      else filtered_data data filter_risk filter_village)"

text \<open>
  Line 279 calls Python's built-in \<^verbatim>\<open>list.sort(key=..., reverse=True)\<close>. CPython
  sorts ascending by key with a stable algorithm; with \<^verbatim>\<open>reverse\<close> set it reverses
  the list before sorting and reverses the result afterwards. The stable ascending sort
  is modelled by insertion from the left: each element goes behind the elements already
  placed whose key is not greater, as CPython's binary insertion does.
\<close>

fun place :: "('a \<Rightarrow> int) \<Rightarrow> 'a \<Rightarrow> 'a list \<Rightarrow> 'a list" where
  "place key x [] = [x]"
| "place key x (y # ys) = (if key x < key y then x # y # ys else y # place key x ys)"

fun sort_loop :: "('a \<Rightarrow> int) \<Rightarrow> 'a list \<Rightarrow> 'a list \<Rightarrow> 'a list" where
  "sort_loop key [] placed = placed"
| "sort_loop key (x # xs) placed = sort_loop key xs (place key x placed)"

definition list_sort :: "('a \<Rightarrow> int) \<Rightarrow> bool \<Rightarrow> 'a list \<Rightarrow> 'a list" where
  "list_sort key reverse xs =
     (if reverse then rev (sort_loop key (rev xs) []) else sort_loop key xs [])"

definition sort_by_risk_score :: "visit list \<Rightarrow> visit list" where
  "sort_by_risk_score filtered = list_sort risk_score True filtered"

section \<open>Properties of the scoring engine\<close>

subsection \<open>Every step only adds to the score\<close>

lemma age_risk_ge: "score \<le> age_risk a score"
  by (simp add: age_risk_def)

lemma symptom_risk_ge: "score \<le> symptom_risk ss score"
proof (induction ss arbitrary: score)
  case Nil
  show ?case by simp
next
  case (Cons x ss)
  let ?s = "if x \<in> set critical_symptoms then score + 25
            else if x \<in> set moderate_symptoms then score + 10 else score + 5"
  have "score \<le> ?s" by simp
  also have "?s \<le> symptom_risk ss ?s" by (rule Cons.IH)
  finally show ?case by simp
qed

lemma vitals_risk_ge: "score \<le> vitals_risk v score"
  by (simp add: vitals_risk_def Let_def)

lemma condition_risk_ge: "score \<le> condition_risk cs score"
proof (induction cs arbitrary: score)
  case Nil
  show ?case by simp
next
  case (Cons x cs)
  let ?s = "if x \<in> set high_risk_conditions then score + 15
            else if x \<in> set moderate_risk_conditions then score + 10 else score"
  have "score \<le> ?s" by simp
  also have "?s \<le> condition_risk cs ?s" by (rule Cons.IH)
  finally show ?case by simp
qed

lemma raw_score_ge_symptoms:
  "symptom_risk ss (age_risk a 0) \<le> raw_score a ss v cs"
proof -
  have "symptom_risk ss (age_risk a 0) \<le> vitals_risk v (symptom_risk ss (age_risk a 0))"
    by (rule vitals_risk_ge)
  also have "\<dots> \<le> raw_score a ss v cs"
    unfolding raw_score_def by (rule condition_risk_ge)
  finally show ?thesis .
qed

lemma raw_score_nonneg: "0 \<le> raw_score a ss v cs"
proof -
  have "0 \<le> age_risk a 0" by (rule age_risk_ge)
  also have "\<dots> \<le> symptom_risk ss (age_risk a 0)" by (rule symptom_risk_ge)
  also have "\<dots> \<le> raw_score a ss v cs" by (rule raw_score_ge_symptoms)
  finally show ?thesis .
qed

lemma symptom_risk_critical:
  "symptom_risk (critical_symptoms @ ss) score = symptom_risk ss (score + 100)"
  by (simp add: critical_symptoms_def add.commute)

text \<open>
  Claim C1. For every age, every list of symptom tags, every vitals dictionary and every
  list of condition tags, \<^verbatim>\<open>calculate_risk_score\<close> returns a score between 0 and 100,
  both included. When all four critical symptoms and both high-risk conditions are among
  the tags, the score is exactly the cap of 100.
\<close>

theorem calculate_risk_score_in_range:
  "0 \<le> calculate_risk_score a ss v cs
   \<and> calculate_risk_score a ss v cs \<le> 100
   \<and> calculate_risk_score a (critical_symptoms @ ss) v (high_risk_conditions @ cs) = 100"
proof (intro conjI)
  show "0 \<le> calculate_risk_score a ss v cs"
    using raw_score_nonneg [of a ss v cs]
    by (simp add: calculate_risk_score_def)
  show "calculate_risk_score a ss v cs \<le> 100"
    by (simp add: calculate_risk_score_def)
  have "100 \<le> age_risk a 0 + 100"
    using age_risk_ge [of 0 a] by simp
  also have "\<dots> \<le> symptom_risk (critical_symptoms @ ss) (age_risk a 0)"
    unfolding symptom_risk_critical by (rule symptom_risk_ge)
  also have "\<dots> \<le> raw_score a (critical_symptoms @ ss) v (high_risk_conditions @ cs)"
    by (rule raw_score_ge_symptoms)
  finally show "calculate_risk_score a (critical_symptoms @ ss) v (high_risk_conditions @ cs) = 100"
    by (simp add: calculate_risk_score_def)
qed

text \<open>
  Claim C2. \<^verbatim>\<open>get_risk_level\<close> returns HIGH exactly for the scores from 60 up, MEDIUM
  exactly for the scores from 30 to 59, and LOW exactly for the scores below 30, so each
  score has one tier; 29 is LOW, 30 and 59 are MEDIUM, 60 is HIGH; and a greater score
  never has a lower tier.
\<close>

theorem get_risk_level_tiers:
  "(get_risk_level score = ''HIGH'') = (60 \<le> score)
   \<and> (get_risk_level score = ''MEDIUM'') = (30 \<le> score \<and> score < 60)
   \<and> (get_risk_level score = ''LOW'') = (score < 30)
   \<and> get_risk_level 29 = ''LOW'' \<and> get_risk_level 30 = ''MEDIUM''
   \<and> get_risk_level 59 = ''MEDIUM'' \<and> get_risk_level 60 = ''HIGH''
   \<and> (score \<le> score' \<longrightarrow> tier (get_risk_level score) \<le> tier (get_risk_level score'))"
  by (simp add: get_risk_level_def tier_def)

theorem get_risk_level_tiers_witness:
  "(29::int) \<le> 60 \<and> tier (get_risk_level 29) \<le> tier (get_risk_level 60)
   \<and> get_risk_level 29 = ''LOW'' \<and> get_risk_level 60 = ''HIGH''"
  using get_risk_level_tiers [of 29 60] by (simp add: tier_def)

text \<open>
  Claim C9. The recommendation depends on the risk level only: two calls of
  \<^verbatim>\<open>get_recommendation\<close> with the same level return the same string whatever the two
  scores are. The string is the urgent referral for HIGH, the 48-hour follow-up for
  MEDIUM and home care for LOW; it is always one of these three, which differ from one
  another.
\<close>

theorem get_recommendation_by_level:
  "get_recommendation level score = get_recommendation level score'
   \<and> get_recommendation ''HIGH'' score = urgent_referral
   \<and> get_recommendation ''MEDIUM'' score = follow_up
   \<and> get_recommendation ''LOW'' score = home_care
   \<and> (get_recommendation level score = urgent_referral
        \<or> get_recommendation level score = follow_up
        \<or> get_recommendation level score = home_care)
   \<and> distinct [urgent_referral, follow_up, home_care]"
  by (simp add: get_recommendation_def urgent_referral_def follow_up_def home_care_def)

text \<open>
  Claim C5. Age 70 with the symptoms chest pain and breathlessness, the condition heart
  disease and SpO2 90 (every other vital at its baseline, whether given or left out):
  the age adds 20, the symptoms 25 each, the condition 15 and the SpO2 20, the sum
  before the cap is 105, the score is 100, the level is HIGH and the recommendation is
  the urgent referral.
\<close>

theorem urgent_referral_example:
  "age_risk 70 0 = 20
   \<and> symptom_risk [''chest_pain'', ''breathlessness''] 0 = 25 + 25
   \<and> condition_risk [''heart_disease''] 0 = 15
   \<and> vitals_risk (baseline_vitals(''spo2'' \<mapsto> 90)) 0 = 20
   \<and> vitals_risk [''spo2'' \<mapsto> 90] 0 = 20
   \<and> raw_score 70 [''chest_pain'', ''breathlessness''] (baseline_vitals(''spo2'' \<mapsto> 90))
        [''heart_disease''] = 105
   \<and> raw_score 70 [''chest_pain'', ''breathlessness''] [''spo2'' \<mapsto> 90]
        [''heart_disease''] = 105
   \<and> calculate_risk_score 70 [''chest_pain'', ''breathlessness'']
        (baseline_vitals(''spo2'' \<mapsto> 90)) [''heart_disease''] = 100
   \<and> calculate_risk_score 70 [''chest_pain'', ''breathlessness''] [''spo2'' \<mapsto> 90]
        [''heart_disease''] = 100
   \<and> get_risk_level
        (calculate_risk_score 70 [''chest_pain'', ''breathlessness''] [''spo2'' \<mapsto> 90]
           [''heart_disease'']) = ''HIGH''
   \<and> get_recommendation
        (get_risk_level
           (calculate_risk_score 70 [''chest_pain'', ''breathlessness''] [''spo2'' \<mapsto> 90]
              [''heart_disease'']))
        (calculate_risk_score 70 [''chest_pain'', ''breathlessness''] [''spo2'' \<mapsto> 90]
           [''heart_disease'']) = urgent_referral"
  by (simp add: calculate_risk_score_def raw_score_def age_risk_def vitals_risk_def get_def
      baseline_vitals_def critical_symptoms_def moderate_symptoms_def high_risk_conditions_def
      moderate_risk_conditions_def get_risk_level_def get_recommendation_def)

lemma vitals_risk_baseline: "vitals_risk (baseline_vitals |` keys) score = score"
  by (simp add: vitals_risk_def get_def baseline_vitals_def restrict_map_def)

text \<open>
  Claim C6. A vitals dictionary in which each of the five vitals is either absent, so
  that its default is used, or present with its baseline value (120, 80, 75, 98.6, 98),
  which is the baseline dictionary cut down to any set of keys, trips none of the five
  checks and leaves the score as it was. So age 30 with no symptom, the condition
  \<^verbatim>\<open>none\<close> and such vitals scores 0, which is LOW.
\<close>

theorem baseline_vitals_score_nothing:
  "vitals_risk (baseline_vitals |` keys) score = score
   \<and> calculate_risk_score 30 [] (baseline_vitals |` keys) [''none''] = 0
   \<and> get_risk_level (calculate_risk_score 30 [] (baseline_vitals |` keys) [''none'']) = ''LOW''"
  by (simp add: vitals_risk_baseline calculate_risk_score_def raw_score_def age_risk_def
      high_risk_conditions_def moderate_risk_conditions_def get_risk_level_def)

subsection \<open>More tags, no lower score\<close>

lemma symptom_risk_mono: "s \<le> t \<Longrightarrow> symptom_risk ss s \<le> symptom_risk ss t"
  by (induction ss arbitrary: s t) simp_all

lemma vitals_risk_mono: "s \<le> t \<Longrightarrow> vitals_risk v s \<le> vitals_risk v t"
  by (simp add: vitals_risk_def Let_def)

lemma condition_risk_mono: "s \<le> t \<Longrightarrow> condition_risk cs s \<le> condition_risk cs t"
  by (induction cs arbitrary: s t) simp_all

lemma symptom_risk_append: "symptom_risk (xs @ ys) s = symptom_risk ys (symptom_risk xs s)"
  by (induction xs arbitrary: s) simp_all

lemma condition_risk_append:
  "condition_risk (xs @ ys) s = condition_risk ys (condition_risk xs s)"
  by (induction xs arbitrary: s) simp_all

lemma symptom_risk_insert:
  "symptom_risk (xs @ ys) s \<le> symptom_risk (xs @ x # ys) s"
proof -
  have "symptom_risk xs s \<le> symptom_risk [x] (symptom_risk xs s)"
    by (rule symptom_risk_ge)
  then have "symptom_risk ys (symptom_risk xs s)
             \<le> symptom_risk ys (symptom_risk [x] (symptom_risk xs s))"
    by (rule symptom_risk_mono)
  then show ?thesis
    using symptom_risk_append [of xs ys s] symptom_risk_append [of xs "x # ys" s] by simp
qed

lemma condition_risk_insert:
  "condition_risk (xs @ ys) s \<le> condition_risk (xs @ x # ys) s"
proof -
  have "condition_risk xs s \<le> condition_risk [x] (condition_risk xs s)"
    by (rule condition_risk_ge)
  then have "condition_risk ys (condition_risk xs s)
             \<le> condition_risk ys (condition_risk [x] (condition_risk xs s))"
    by (rule condition_risk_mono)
  then show ?thesis
    using condition_risk_append [of xs ys s] condition_risk_append [of xs "x # ys" s] by simp
qed

text \<open>
  Claim C10. For every age and vitals, one more symptom tag put anywhere into the list
  of symptoms, or one more condition tag put anywhere into the list of conditions,
  never lowers the score that \<^verbatim>\<open>calculate_risk_score\<close> returns.
\<close>

theorem calculate_risk_score_monotone:
  "calculate_risk_score a (xs @ ys) v cs \<le> calculate_risk_score a (xs @ symptom # ys) v cs
   \<and> calculate_risk_score a ss v (xs @ ys) \<le> calculate_risk_score a ss v (xs @ condition # ys)"
proof
  have "raw_score a (xs @ ys) v cs \<le> raw_score a (xs @ symptom # ys) v cs"
    unfolding raw_score_def
    by (intro condition_risk_mono vitals_risk_mono symptom_risk_insert)
  then show "calculate_risk_score a (xs @ ys) v cs
             \<le> calculate_risk_score a (xs @ symptom # ys) v cs"
    by (simp add: calculate_risk_score_def)
  have "raw_score a ss v (xs @ ys) \<le> raw_score a ss v (xs @ condition # ys)"
    unfolding raw_score_def by (rule condition_risk_insert)
  then show "calculate_risk_score a ss v (xs @ ys)
             \<le> calculate_risk_score a ss v (xs @ condition # ys)"
    by (simp add: calculate_risk_score_def)
qed

section \<open>Properties of the visit store\<close>

text \<open>
  Claim C4, as the code has it. \<^verbatim>\<open>load_data\<close> returns the empty list when the
  document is missing and the stored list when the document parses; when the document
  is corrupt, the exception of \<^verbatim>\<open>json.load\<close> leaves \<^verbatim>\<open>load_data\<close>.
\<close>

theorem load_data_cases:
  "load_data Missing = Inr []
   \<and> load_data (Stored data) = Inr data
   \<and> load_data Corrupt = Inl JSONDecodeError"
  by (simp add: load_data_def)

text \<open>
  Claim C4 as stated fails on a corrupt document: \<^verbatim>\<open>load_data\<close> raises there and
  does not return the empty list.
\<close>

theorem load_data_corrupt_raises:
  "load_data Corrupt = Inl JSONDecodeError \<and> load_data Corrupt \<noteq> Inr []"
  by (simp add: load_data_def)

subsection \<open>Sequential identifiers\<close>

lemma record_visit_Stored:
  "record_visit f (Stored old)
     = (Inr (visit_data (length old) f), Stored (old @ [visit_data (length old) f]))"
  by (simp add: record_visit_def load_data_def save_data_def Let_def)

lemma record_visit_Missing:
  "record_visit f Missing = (Inr (visit_data 0 f), Stored [visit_data 0 f])"
  by (simp add: record_visit_def load_data_def save_data_def Let_def)

lemma record_visits_Stored:
  "record_visits fs (Stored old)
     = Stored (old @ map (\<lambda>(n, f). visit_data n f) (enumerate (length old) fs))"
proof (induction fs arbitrary: old)
  case Nil
  show ?case by simp
next
  case (Cons f fs)
  have "record_visits (f # fs) (Stored old)
          = record_visits fs (Stored (old @ [visit_data (length old) f]))"
    by (simp add: record_visit_Stored)
  also have "\<dots> = Stored ((old @ [visit_data (length old) f])
                 @ map (\<lambda>(n, f). visit_data n f) (enumerate (Suc (length old)) fs))"
    using Cons.IH [of "old @ [visit_data (length old) f]"] by simp
  finally show ?case by simp
qed

lemma visit_id_visit_data: "visit_id (visit_data n f) = int n + 1"
  by (simp add: visit_data_def Let_def)

lemma ids_upto: "map (\<lambda>n. int n + 1) [0..<k] = [1..int k]"
proof (induction k)
  case 0
  show ?case by simp
next
  case (Suc k)
  have "[1..int (Suc k)] = [1..int k] @ [int k + 1]"
    using upto_rec2 [of 1 "int k + 1"] by (simp add: add.commute)
  with Suc show ?case by simp
qed

lemma map_visit_id_enumerate:
  "map visit_id (map (\<lambda>(n, f). visit_data n f) (enumerate 0 fs)) = [1..int (length fs)]"
proof -
  have "map visit_id (map (\<lambda>(n, f). visit_data n f) (enumerate 0 fs))
          = map ((\<lambda>n. int n + 1) \<circ> fst) (enumerate 0 fs)"
    by (simp add: visit_id_visit_data case_prod_unfold comp_def)
  also have "\<dots> = map (\<lambda>n. int n + 1) (map fst (enumerate 0 fs))"
    by (simp only: map_map)
  also have "\<dots> = map (\<lambda>n. int n + 1) [0..<length fs]"
    by (simp only: map_fst_enumerate add_0)
  finally show ?thesis by (simp only: ids_upto)
qed

text \<open>
  Claim C3. Recording the visits of the forms \<open>fs\<close> one after the other, starting from
  a store with no record (the document missing, or holding the empty list), leaves a
  store that reads back as exactly one record per form, in the order of the forms, the
  ids being 1, 2, ... up to the number of forms, with no gap and no duplicate. Each
  single append gives the new record the id \<open>length old + 1\<close>, where \<open>old\<close> is what was
  persisted before, and puts it behind the records already there.
\<close>

theorem sequential_ids:
  "(\<exists>data. load_data (record_visits fs Missing) = Inr data
       \<and> load_data (record_visits fs (Stored [])) = Inr data
       \<and> length data = length fs
       \<and> map visit_id data = [1..int (length fs)]
       \<and> distinct (map visit_id data)
       \<and> data = map (\<lambda>(n, f). visit_data n f) (enumerate 0 fs))
   \<and> record_visit f Missing = (Inr (visit_data 0 f), Stored [visit_data 0 f])
   \<and> record_visit f (Stored old)
       = (Inr (visit_data (length old) f), Stored (old @ [visit_data (length old) f]))
   \<and> visit_id (visit_data (length old) f) = int (length old) + 1"
proof (intro conjI)
  let ?data = "map (\<lambda>(n, f). visit_data n f) (enumerate 0 fs)"
  have stored: "record_visits fs (Stored []) = Stored ?data"
    using record_visits_Stored [of fs "[]"] by simp
  have missing: "load_data (record_visits fs Missing) = Inr ?data"
  proof (cases fs)
    case Nil
    then show ?thesis by (simp add: load_data_def)
  next
    case (Cons g gs)
    then show ?thesis
      using record_visits_Stored [of gs "[visit_data 0 g]"]
      by (simp add: record_visit_Missing load_data_def enumerate_Suc_eq)
  qed
  have ids: "map visit_id ?data = [1..int (length fs)]"
    by (rule map_visit_id_enumerate)
  have "distinct (map visit_id ?data)"
    unfolding ids by simp
  with stored missing ids
  show "\<exists>data. load_data (record_visits fs Missing) = Inr data
       \<and> load_data (record_visits fs (Stored [])) = Inr data
       \<and> length data = length fs
       \<and> map visit_id data = [1..int (length fs)]
       \<and> distinct (map visit_id data)
       \<and> data = map (\<lambda>(n, f). visit_data n f) (enumerate 0 fs)"
    by (simp add: load_data_def)
  show "record_visit f Missing = (Inr (visit_data 0 f), Stored [visit_data 0 f])"
    by (rule record_visit_Missing)
  show "record_visit f (Stored old)
       = (Inr (visit_data (length old) f), Stored (old @ [visit_data (length old) f]))"
    by (rule record_visit_Stored)
  show "visit_id (visit_data (length old) f) = int (length old) + 1"
    by (rule visit_id_visit_data)
qed

section \<open>Properties of the dashboard\<close>

lemma filtered_data_filter:
  "filtered_data data filter_risk filter_village
     = filter (\<lambda>d. risk_level d \<in> set filter_risk \<and> village d \<in> set filter_village) data"
  by (induction data) simp_all

text \<open>
  Claim C7. The filter keeps exactly the records whose level is among the chosen levels
  and whose village is among the chosen villages, in their order; when no level is
  chosen, or no village, nothing is kept, whatever the other choice is.
\<close>

theorem filtered_data_exact:
  "filtered_data data levels villages
     = filter (\<lambda>d. risk_level d \<in> set levels \<and> village d \<in> set villages) data
   \<and> set (filtered_data data levels villages)
       = {d \<in> set data. risk_level d \<in> set levels \<and> village d \<in> set villages}
   \<and> filtered_data data [] villages = []
   \<and> filtered_data data levels [] = []"
  by (simp add: filtered_data_filter)

subsection \<open>The sort by score\<close>

lemma set_place: "set (place key x ys) = insert x (set ys)"
  by (induction ys) auto

lemma mset_place: "mset (place key x ys) = add_mset x (mset ys)"
  by (induction ys) simp_all

lemma sorted_place:
  "sorted (map key ys) \<Longrightarrow> sorted (map key (place key x ys))"
  by (induction ys) (auto simp: set_place)

lemma filter_place:
  "sorted (map key ys) \<Longrightarrow>
   filter (\<lambda>y. key y = k) (place key x ys)
     = filter (\<lambda>y. key y = k) ys @ (if key x = k then [x] else [])"
proof (induction ys)
  case Nil
  show ?case by simp
next
  case (Cons y ys)
  show ?case
  proof (cases "key x < key y")
    case True
    have "\<forall>z\<in>set (y # ys). key x < key z"
      using Cons.prems True by auto
    then have "key x = k \<Longrightarrow> filter (\<lambda>y. key y = k) (y # ys) = []"
      by (auto simp: filter_empty_conv)
    with True show ?thesis by auto
  next
    case False
    with Cons show ?thesis by simp
  qed
qed

lemma sorted_sort_loop:
  "sorted (map key placed) \<Longrightarrow> sorted (map key (sort_loop key xs placed))"
  by (induction xs arbitrary: placed) (simp_all add: sorted_place)

lemma mset_sort_loop: "mset (sort_loop key xs placed) = mset xs + mset placed"
  by (induction xs arbitrary: placed) (simp_all add: mset_place)

lemma filter_sort_loop:
  "sorted (map key placed) \<Longrightarrow>
   filter (\<lambda>y. key y = k) (sort_loop key xs placed)
     = filter (\<lambda>y. key y = k) placed @ filter (\<lambda>y. key y = k) xs"
proof (induction xs arbitrary: placed)
  case Nil
  show ?case by simp
next
  case (Cons x xs)
  have "filter (\<lambda>y. key y = k) (sort_loop key (x # xs) placed)
          = filter (\<lambda>y. key y = k) (place key x placed) @ filter (\<lambda>y. key y = k) xs"
    using Cons.IH [OF sorted_place [OF Cons.prems]] by simp
  then show ?case
    by (simp add: filter_place [OF Cons.prems])
qed

lemma list_sort_reverse_descending:
  "sorted_wrt (\<ge>) (map key (list_sort key True xs))"
proof -
  have "sorted (map key (sort_loop key (rev xs) []))"
    by (rule sorted_sort_loop) simp
  then have "sorted_wrt (\<ge>) (rev (map key (sort_loop key (rev xs) [])))"
    by (simp add: sorted_wrt_rev)
  then show ?thesis
    by (simp add: list_sort_def rev_map)
qed

lemma list_sort_reverse_stable:
  "filter (\<lambda>y. key y = k) (list_sort key True xs) = filter (\<lambda>y. key y = k) xs"
proof -
  have "filter (\<lambda>y. key y = k) (sort_loop key (rev xs) []) = filter (\<lambda>y. key y = k) (rev xs)"
    using filter_sort_loop [of key "[]" k "rev xs"] by simp
  then have "rev (filter (\<lambda>y. key y = k) (sort_loop key (rev xs) []))
               = rev (filter (\<lambda>y. key y = k) (rev xs))"
    by simp
  then show ?thesis
    by (simp add: list_sort_def rev_filter)
qed

lemma mset_list_sort: "mset (list_sort key reverse xs) = mset xs"
  by (simp add: list_sort_def mset_sort_loop)

text \<open>
  Claim C8. The dashboard's sort puts the records in descending order of score, keeps
  every record, and is stable: for each score, the records with that score come out in
  the order they went in. For four records with the scores 40, 40, 80 and 10 the result
  is the third, the first, the second and the fourth.
\<close>

theorem sort_by_risk_score_stable:
  "sorted_wrt (\<ge>) (map risk_score (sort_by_risk_score ds))
   \<and> mset (sort_by_risk_score ds) = mset ds
   \<and> filter (\<lambda>d. risk_score d = s) (sort_by_risk_score ds) = filter (\<lambda>d. risk_score d = s) ds
   \<and> sort_by_risk_score
        [v1\<lparr>risk_score := 40\<rparr>, v2\<lparr>risk_score := 40\<rparr>, v3\<lparr>risk_score := 80\<rparr>,
         v4\<lparr>risk_score := 10\<rparr>]
       = [v3\<lparr>risk_score := 80\<rparr>, v1\<lparr>risk_score := 40\<rparr>, v2\<lparr>risk_score := 40\<rparr>,
          v4\<lparr>risk_score := 10\<rparr>]"
proof (intro conjI)
  show "sorted_wrt (\<ge>) (map risk_score (sort_by_risk_score ds))"
    unfolding sort_by_risk_score_def by (rule list_sort_reverse_descending)
  show "mset (sort_by_risk_score ds) = mset ds"
    unfolding sort_by_risk_score_def by (rule mset_list_sort)
  show "filter (\<lambda>d. risk_score d = s) (sort_by_risk_score ds) = filter (\<lambda>d. risk_score d = s) ds"
    unfolding sort_by_risk_score_def by (rule list_sort_reverse_stable)
  show "sort_by_risk_score
        [v1\<lparr>risk_score := 40\<rparr>, v2\<lparr>risk_score := 40\<rparr>, v3\<lparr>risk_score := 80\<rparr>,
         v4\<lparr>risk_score := 10\<rparr>]
       = [v3\<lparr>risk_score := 80\<rparr>, v1\<lparr>risk_score := 40\<rparr>, v2\<lparr>risk_score := 40\<rparr>,
          v4\<lparr>risk_score := 10\<rparr>]"
    by (simp add: sort_by_risk_score_def list_sort_def)
qed

end
